theory Spec2Isabelle
  imports Complex_Main
begin

section \<open>Python values\<close>

text \<open>
  A Python \<open>str\<close> is a sequence of Unicode code points. The patterns of the source
  contain Devanagari letters (U+0900 .. U+097F) and the advice texts contain U+00B0 and
  U+20B9, so a text is a list of code points; \<open>asc\<close> lifts an ASCII literal.
  Dictionary keys are the ASCII field names of the source and are kept as \<open>string\<close>.
\<close>

type_synonym str = "nat list"

abbreviation asc :: "string \<Rightarrow> str" where
  "asc s \<equiv> map of_char s"

text \<open>
  \<open>str.lower\<close> and the regular expression classes \<open>\d\<close> and \<open>\s\<close> consult
  Python's Unicode tables, which are not part of the repository: they are parameters of
  the text functions. \<open>ascii_db\<close> is what they are on ASCII text (\<open>\s\<close> on a
  \<open>str\<close> pattern also takes the separators U+001C .. U+001F).
\<close>

record unicode_db =
  lower :: "str \<Rightarrow> str"
  is_digit :: "nat \<Rightarrow> bool"
  is_space :: "nat \<Rightarrow> bool"

definition ascii_lower :: "nat \<Rightarrow> nat" where
  "ascii_lower c = (if 65 \<le> c \<and> c \<le> 90 then c + 32 else c)"

definition ascii_db :: unicode_db where
  "ascii_db = \<lparr> lower = map ascii_lower,
                is_digit = (\<lambda>c. 48 \<le> c \<and> c \<le> 57),
                is_space = (\<lambda>c. (9 \<le> c \<and> c \<le> 13) \<or> (28 \<le> c \<and> c \<le> 32)) \<rparr>"

subsection \<open>Floats\<close>

text \<open>
  A Python \<open>float\<close> is an IEEE 754 double. A finite double is kept as the rational it
  denotes, and every operation rounds its exact result to the nearest double, ties to the
  even significand (\<open>dbl\<close>). The literal \<open>0.3\<close> is \<open>dbl (3 / 10)\<close>. Overflow and
  subnormal numbers are out of reach of the scores computed here (a score is at most
  0.3 times the length of the text).
\<close>

type_synonym pyfloat = rat

fun bit_length :: "nat \<Rightarrow> nat" where
  "bit_length n = (if n = 0 then 0 else Suc (bit_length (n div 2)))"

declare bit_length.simps [simp del]

definition pow2 :: "int \<Rightarrow> rat" where
  "pow2 e = (if 0 \<le> e then 2 ^ nat e else 1 / 2 ^ nat (- e))"

definition ilog2 :: "rat \<Rightarrow> int" where
  \<comment> \<open>for \<open>0 < x\<close>, the \<open>e\<close> with \<open>2 ^ e \<le> x < 2 ^ (e + 1)\<close>\<close>
  "ilog2 x =
     (if 1 \<le> x then int (bit_length (nat \<lfloor>x\<rfloor>)) - 1
      else (let y = 1 / x; k = int (bit_length (nat \<lfloor>y\<rfloor>)) - 1
            in if y = pow2 k then - k else - k - 1))"

definition round_half_even :: "rat \<Rightarrow> int" where
  "round_half_even y =
     (let f = \<lfloor>y\<rfloor>; r = y - of_int f
      in if r < 1 / 2 then f else if 1 / 2 < r then f + 1
         else if even f then f else f + 1)"

definition dbl :: "rat \<Rightarrow> pyfloat" where
  "dbl x =
     (if x = 0 then 0
      else (let e = ilog2 \<bar>x\<bar> - 52
            in of_int (round_half_even (x / pow2 e)) * pow2 e))"

subsection \<open>Regular expressions of the source\<close>

text \<open>
  All but one of the patterns are alternations of literal words, \<open>w1|w2|...\<close>.
  \<open>re_alts\<close> reads such a pattern into its alternatives, in order. At a position the
  first alternative that is a prefix of the rest of the text matches; \<open>re.findall\<close>
  scans from the left, and after a match resumes behind it (\<open>skip\<close> counts the
  characters of the match still to pass). No alternative of the source is empty.
\<close>

fun split_bar :: "str \<Rightarrow> str \<Rightarrow> str list" where
  "split_bar acc [] = [rev acc]"
| "split_bar acc (c # cs) =
     (if c = 124 then rev acc # split_bar [] cs else split_bar (c # acc) cs)"

definition re_alts :: "str \<Rightarrow> str list" where
  "re_alts pattern = split_bar [] pattern"

definition startswith :: "str \<Rightarrow> str \<Rightarrow> bool" where
  "startswith s p = (take (length p) s = p)"

fun first_alt :: "str list \<Rightarrow> str \<Rightarrow> str option" where
  "first_alt [] s = None"
| "first_alt (a # as) s = (if startswith s a then Some a else first_alt as s)"

fun findall_from :: "str list \<Rightarrow> nat \<Rightarrow> str \<Rightarrow> str list" where
  "findall_from alts skip [] = []"
| "findall_from alts (Suc skip) (c # cs) = findall_from alts skip cs"
| "findall_from alts 0 (c # cs) =
     (case first_alt alts (c # cs) of
        Some a \<Rightarrow> a # findall_from alts (length a - 1) cs
      | None \<Rightarrow> findall_from alts 0 cs)"

definition findall :: "str \<Rightarrow> str \<Rightarrow> str list" where
  "findall pattern s = findall_from (re_alts pattern) 0 s"

fun search :: "str \<Rightarrow> str \<Rightarrow> bool" where
  "search pattern [] = False"
| "search pattern (c # cs) =
     (case first_alt (re_alts pattern) (c # cs) of
        Some a \<Rightarrow> True
      | None \<Rightarrow> search pattern cs)"

section \<open>IndicBERTProcessor\<close>

definition intent_patterns :: "(str \<times> str list) list" where
  "intent_patterns =
     [(asc ''weather'',
         [asc ''barish|rain|mausam|weather|paani|water|baarish'',
          asc ''humidity|temperature|wind|climate'']),
      (asc ''irrigation'',
         [asc ''sinchai|irrigation|paani dena|watering'',
          asc ''kab paani de|when to water|irrigation timing'']),
      (asc ''market'',
         [asc ''mandi|price|rate|bhav|market|sell|bechna'',
          asc ''commodity price|market rate|selling price'']),
      (asc ''fertilizer'',
         [asc ''khad|fertilizer|urvarak|nutrients|manure'',
          asc ''NPK|urea|phosphate|potash|organic'']),
      (asc ''pest'',
         [asc ''keeda|pest|insect|disease|bimari|fungus'',
          asc ''crop disease|plant protection|pesticide'']),
      (asc ''scheme'',
         [asc ''yojana|scheme|subsidy|government|sarkar'',
          asc ''loan|credit|insurance|financial help'']),
      (asc ''crop'',
         [asc ''fasal|crop|bija|seed|planting|cultivation'',
          asc ''sowing|harvesting|crop calendar|variety''])]"

subsection \<open>detect_language\<close>

definition is_devanagari :: "nat \<Rightarrow> bool" where
  \<comment> \<open>the class \<open>[\u0900-\u097F]\<close>\<close>
  "is_devanagari c = (2304 \<le> c \<and> c \<le> 2431)"

definition is_latin :: "nat \<Rightarrow> bool" where
  \<comment> \<open>the class \<open>[a-zA-Z]\<close>\<close>
  "is_latin c = ((97 \<le> c \<and> c \<le> 122) \<or> (65 \<le> c \<and> c \<le> 90))"

definition hindi_chars :: "str \<Rightarrow> str" where
  "hindi_chars t = filter is_devanagari t"

definition english_chars :: "str \<Rightarrow> str" where
  "english_chars t = filter is_latin t"

definition detect_language :: "str \<Rightarrow> str" where
  "detect_language t =
     (if length (hindi_chars t) > length (english_chars t) then asc ''hi''
      else if length (english_chars t) > 0 then asc ''en''
      else asc ''hi'')"

subsection \<open>extract_intent\<close>

text \<open>
  The inner loop: \<open>score += matches * 0.3\<close>, in double arithmetic. The count is
  converted to a double, the product is rounded, and so is the sum.
\<close>

definition add_matches :: "str \<Rightarrow> pyfloat \<Rightarrow> str \<Rightarrow> pyfloat" where
  "add_matches text_lower score pattern =
     (let matches = length (findall pattern text_lower)
      in dbl (score + dbl (dbl (of_nat matches) * dbl (3 / 10))))"

definition intent_scores :: "unicode_db \<Rightarrow> str \<Rightarrow> (str \<times> pyfloat) list" where
  \<comment> \<open>the dictionary \<open>intent_scores\<close>, in insertion order\<close>
  "intent_scores u t =
     (let text_lower = lower u t
      in map (\<lambda>(intent, patterns). (intent, foldl (add_matches text_lower) 0 patterns))
           intent_patterns)"

fun py_max :: "'a::linorder \<Rightarrow> 'a list \<Rightarrow> 'a" where
  \<comment> \<open>\<open>max\<close> of an iterable whose first element is given\<close>
  "py_max best [] = best"
| "py_max best (x # xs) = py_max (if best < x then x else best) xs"

fun py_max_key :: "'k \<times> 'v::linorder \<Rightarrow> ('k \<times> 'v) list \<Rightarrow> 'k \<times> 'v" where
  \<comment> \<open>\<open>max(d, key=d.get)\<close>: a later key replaces the best one only when its value is
     strictly larger\<close>
  "py_max_key best [] = best"
| "py_max_key best (x # xs) = py_max_key (if snd best < snd x then x else best) xs"

definition extract_intent :: "unicode_db \<Rightarrow> str \<Rightarrow> str \<times> pyfloat" where
  "extract_intent u t =
     (case intent_scores u t of
        [] \<Rightarrow> (asc ''general'', dbl (1 / 2))
      | p # ps \<Rightarrow>
          if py_max (snd p) (map snd ps) = 0 then (asc ''general'', dbl (1 / 2))
          else (let (best_intent, score) = py_max_key p ps
                in (best_intent, min score (dbl 1))))"

subsection \<open>extract_entities\<close>

type_synonym entities = "string \<rightharpoonup> str"

text \<open>The local tables \<open>crops\<close> and \<open>locations\<close>, in insertion order.\<close>

definition entity_crops :: "(str \<times> str) list" where
  "entity_crops =
     [(asc ''wheat'', asc ''gehun|wheat|'' @ [2327, 2375, 2361, 2370, 2306]),
      (asc ''rice'', asc ''chawal|rice|'' @ [2343, 2366, 2344, 124, 2330, 2366, 2357, 2354]),
      (asc ''cotton'', asc ''kapas|cotton|'' @ [2325, 2346, 2366, 2360]),
      (asc ''sugarcane'', asc ''ganna|sugarcane|'' @ [2327, 2344, 2381, 2344, 2366]),
      (asc ''potato'', asc ''aloo|potato|'' @ [2310, 2354, 2370]),
      (asc ''tomato'', asc ''tamatar|tomato|'' @ [2335, 2350, 2366, 2335, 2352]),
      (asc ''onion'', asc ''pyaz|onion|'' @ [2346, 2381, 2351, 2366, 2332])]"

definition entity_locations :: "(str \<times> str) list" where
  "entity_locations =
     [(asc ''delhi'', asc ''delhi|'' @ [2342, 2367, 2354, 2381, 2354, 2368]),
      (asc ''punjab'', asc ''punjab|'' @ [2346, 2306, 2332, 2366, 2348]),
      (asc ''haryana'', asc ''haryana|'' @ [2361, 2352, 2367, 2351, 2366, 2339, 2366]),
      (asc ''up'', asc ''uttar pradesh|up|''
         @ [2313, 2340, 2381, 2340, 2352, 32, 2346, 2381, 2352, 2342, 2375, 2358]),
      (asc ''bihar'', asc ''bihar|'' @ [2348, 2367, 2361, 2366, 2352]),
      (asc ''maharashtra'', asc ''maharashtra|''
         @ [2350, 2361, 2366, 2352, 2366, 2359, 2381, 2335, 2381, 2352])]"

fun first_hit :: "(str \<times> str) list \<Rightarrow> str \<Rightarrow> str option" where
  \<comment> \<open>\<open>for value, pattern in table.items(): if re.search(pattern, s): ...; break\<close>\<close>
  "first_hit [] s = None"
| "first_hit ((v, pattern) # rest) s = (if search pattern s then Some v else first_hit rest s)"

text \<open>
  The quantity pattern \<open>(\d+)\s*(kg|quintal|ton|acre|hectare)\<close>. At a position the
  matcher takes the digits greedily, then the white space greedily, then the first unit
  that fits, and backtracks to fewer white space and then to fewer digits when no unit
  fits; \<open>re.search\<close> takes the leftmost position with a match. The result is the pair of
  the two groups.
\<close>

fun first_some :: "('a \<Rightarrow> 'b option) \<Rightarrow> 'a list \<Rightarrow> 'b option" where
  "first_some f [] = None"
| "first_some f (x # xs) = (case f x of Some y \<Rightarrow> Some y | None \<Rightarrow> first_some f xs)"

definition quantity_units :: "str list" where
  "quantity_units = re_alts (asc ''kg|quintal|ton|acre|hectare'')"

definition match_quantity_at :: "unicode_db \<Rightarrow> str \<Rightarrow> (str \<times> str) option" where
  "match_quantity_at u s =
     (let d = length (takeWhile (is_digit u) s)
      in first_some
           (\<lambda>n. let r = drop n s; w = length (takeWhile (is_space u) r)
                in first_some
                     (\<lambda>m. case first_alt quantity_units (drop m r) of
                             Some unit \<Rightarrow> Some (take n s, unit)
                           | None \<Rightarrow> None)
                     (rev [0 ..< Suc w]))
           (rev [1 ..< Suc d]))"

fun search_quantity :: "unicode_db \<Rightarrow> str \<Rightarrow> (str \<times> str) option" where
  "search_quantity u [] = match_quantity_at u []"
| "search_quantity u (c # cs) =
     (case match_quantity_at u (c # cs) of
        Some g \<Rightarrow> Some g
      | None \<Rightarrow> search_quantity u cs)"

definition extract_entities :: "unicode_db \<Rightarrow> str \<Rightarrow> entities" where
  "extract_entities u t =
     (let entities = Map.empty;
          entities = (case first_hit entity_crops (lower u t) of
                        Some crop \<Rightarrow> entities(''crop'' \<mapsto> crop)
                      | None \<Rightarrow> entities);
          entities = (case first_hit entity_locations (lower u t) of
                        Some location \<Rightarrow> entities(''location'' \<mapsto> location)
                      | None \<Rightarrow> entities)
      in case search_quantity u (lower u t) of
           Some (group1, group2) \<Rightarrow> entities(''quantity'' \<mapsto> group1, ''unit'' \<mapsto> group2)
         | None \<Rightarrow> entities)"

section \<open>RAGEngine\<close>

subsection \<open>The knowledge base\<close>

record crop_info =
  sowing_season :: str
  harvesting :: str
  water_requirement :: str
  fertilizer :: str
  varieties :: "str list"
  diseases :: "str list"
  ideal_temp :: str
  soil_ph :: str

record weather_guidelines_t =
  irrigation :: "(string \<times> str) list"
  spraying :: "(string \<times> str) list"

record market_insights_t =
  price_factors :: "str list"
  selling_tips :: "str list"

record knowledge_base_t =
  crops :: "(str \<times> crop_info) list"
  weather_guidelines :: weather_guidelines_t
  market_insights :: market_insights_t

definition wheat_info :: crop_info where
  "wheat_info =
     \<lparr> sowing_season = asc ''Rabi (October-December)'',
       harvesting = asc ''April-May'',
       water_requirement = asc ''Medium (4-6 irrigations)'',
       fertilizer = asc ''NPK 120:60:40 kg/hectare'',
       varieties = [asc ''HD-2967'', asc ''PBW-343'', asc ''DBW-17''],
       diseases = [asc ''Rust'', asc ''Bunt'', asc ''Leaf blight''],
       ideal_temp = asc ''15-25'' @ [176] @ asc ''C'',
       soil_ph = asc ''6.0-7.5'' \<rparr>"

definition rice_info :: crop_info where
  "rice_info =
     \<lparr> sowing_season = asc ''Kharif (May-July)'',
       harvesting = asc ''October-December'',
       water_requirement = asc ''High (standing water)'',
       fertilizer = asc ''NPK 100:50:50 kg/hectare'',
       varieties = [asc ''Pusa-44'', asc ''IR-64'', asc ''Swarna''],
       diseases = [asc ''Blast'', asc ''Sheath blight'', asc ''Brown spot''],
       ideal_temp = asc ''20-35'' @ [176] @ asc ''C'',
       soil_ph = asc ''5.5-7.0'' \<rparr>"

definition knowledge_base :: knowledge_base_t where
  \<comment> \<open>\<open>_load_knowledge_base\<close>; the dictionaries that are enumerated or searched by a
     computed key are association lists in insertion order\<close>
  "knowledge_base =
     \<lparr> crops = [(asc ''wheat'', wheat_info), (asc ''rice'', rice_info)],
       weather_guidelines =
         \<lparr> irrigation =
             [(''high_humidity'', asc ''Delay irrigation if humidity >80%''),
              (''rainfall_expected'', asc ''Skip irrigation if rain expected within 24 hours''),
              (''temperature'', asc ''Best irrigation time: early morning or evening'')],
           spraying =
             [(''wind_speed'', asc ''Avoid spraying if wind speed >10 km/h''),
              (''temperature'', asc ''Spray when temperature <30'' @ [176] @ asc ''C''),
              (''humidity'', asc ''Best humidity range: 60-80%'')] \<rparr>,
       market_insights =
         \<lparr> price_factors =
             [asc ''Seasonal demand'', asc ''Weather conditions'',
              asc ''Government procurement'', asc ''Export policies'',
              asc ''Storage capacity''],
           selling_tips =
             [asc ''Monitor MSP announcements'', asc ''Check multiple mandis'',
              asc ''Consider storage costs'', asc ''Track festival seasons''] \<rparr> \<rparr>"

subsection \<open>retrieve_context\<close>

record "context" =
  sources :: "str list"
  facts :: "str list"
  recommendations :: "str list"

text \<open>
  \<open>str.title\<close> is reached only with a key of the crop table, an ASCII word: the first
  letter of each run of letters is put in upper case and the others in lower case.
\<close>

definition ascii_upper :: "nat \<Rightarrow> nat" where
  "ascii_upper c = (if 97 \<le> c \<and> c \<le> 122 then c - 32 else c)"

fun title_from :: "bool \<Rightarrow> str \<Rightarrow> str" where
  "title_from inside [] = []"
| "title_from inside (c # cs) =
     (if (97 \<le> c \<and> c \<le> 122) \<or> (65 \<le> c \<and> c \<le> 90)
      then (if inside then ascii_lower c else ascii_upper c) # title_from True cs
      else c # title_from False cs)"

definition title :: "str \<Rightarrow> str" where
  "title s = title_from False s"

definition retrieve_context :: "str \<Rightarrow> entities \<Rightarrow> str \<Rightarrow> context" where
  "retrieve_context intent entities query =
     (let ctx = \<lparr> sources = [], facts = [], recommendations = [] \<rparr>;
          ctx =
            (case entities ''crop'' of
               None \<Rightarrow> ctx
             | Some crop \<Rightarrow>
                 (case map_of (crops knowledge_base) crop of
                    None \<Rightarrow> ctx
                  | Some crop_info \<Rightarrow>
                      ctx\<lparr> facts := facts ctx @
                             [asc ''Sowing season: '' @ sowing_season crop_info,
                              asc ''Water requirement: '' @ water_requirement crop_info,
                              asc ''Recommended fertilizer: '' @ fertilizer crop_info],
                           sources := sources ctx @ [asc ''Crop Database - '' @ title crop] \<rparr>))
      in if intent = asc ''irrigation'' then
           (let weather_guide = irrigation (weather_guidelines knowledge_base)
            in ctx\<lparr> recommendations := recommendations ctx @ map snd weather_guide,
                    sources := sources ctx @ [asc ''Irrigation Best Practices''] \<rparr>)
         else if intent = asc ''market'' then
           (let market_info = market_insights knowledge_base
            in ctx\<lparr> facts := facts ctx @ selling_tips market_info,
                    sources := sources ctx @ [asc ''Market Intelligence''] \<rparr>)
         else ctx)"

subsection \<open>The real-time snapshot and the response\<close>

text \<open>
  The snapshot is the dictionary
  \<open>{weather: {current: {temperature, humidity}}, market: {price, change}}\<close>, any key of
  which may be absent. The temperature and the humidity are compared with numbers, so
  they are numbers, an \<open>int\<close> or a finite \<open>float\<close>; the price and the change are only
  formatted, so they may be strings too. How Python prints a \<open>float\<close> is a parameter
  (\<open>fr\<close>) of the functions that format one.
\<close>

datatype num = IntN int | FloatN rat

datatype scalar = Num num | Str str

fun num_val :: "num \<Rightarrow> rat" where
  "num_val (IntN i) = of_int i"
| "num_val (FloatN x) = x"

fun dec_nat :: "nat \<Rightarrow> str" where
  "dec_nat n = (if n < 10 then [48 + n] else dec_nat (n div 10) @ [48 + n mod 10])"

declare dec_nat.simps [simp del]

definition str_int :: "int \<Rightarrow> str" where
  "str_int i = (if i < 0 then 45 # dec_nat (nat (- i)) else dec_nat (nat i))"

fun str_num :: "(rat \<Rightarrow> str) \<Rightarrow> num \<Rightarrow> str" where
  "str_num fr (IntN i) = str_int i"
| "str_num fr (FloatN x) = fr x"

fun py_str :: "(rat \<Rightarrow> str) \<Rightarrow> scalar \<Rightarrow> str" where
  "py_str fr (Num n) = str_num fr n"
| "py_str fr (Str s) = s"

record current_t =
  temperature :: "num option"
  humidity :: "num option"

record weather_t =
  current :: "current_t option"

record market_t =
  price :: "scalar option"
  change :: "scalar option"

record real_time_data =
  weather :: "weather_t option"
  market :: "market_t option"

definition get_or :: "'a option \<Rightarrow> 'a \<Rightarrow> 'a" where
  \<comment> \<open>\<open>d.get(key, default)\<close>, on the entry of the key\<close>
  "get_or entry dflt = (case entry of Some v \<Rightarrow> v | None \<Rightarrow> dflt)"

definition current_weather :: "real_time_data \<Rightarrow> current_t" where
  \<comment> \<open>\<open>real_time_data.get('weather', {}).get('current', {})\<close>\<close>
  "current_weather rtd =
     get_or (current (get_or (weather rtd) \<lparr> current = None \<rparr>))
       \<lparr> temperature = None, humidity = None \<rparr>"

datatype pyval = VStr str | VList "str list" | VFloat pyfloat

type_synonym response = "string \<rightharpoonup> pyval"

subsection \<open>The builders\<close>

definition generate_weather_response ::
  "(rat \<Rightarrow> str) \<Rightarrow> entities \<Rightarrow> context \<Rightarrow> real_time_data \<Rightarrow> response" where
  "generate_weather_response fr entities ctx rtd =
     (let w = current_weather rtd;
          temp = get_or (temperature w) (IntN 25);
          hum = get_or (humidity w) (IntN 60);
          advice = asc ''Current conditions: '' @ str_num fr temp @ [176] @ asc ''C, ''
                   @ str_num fr hum @ asc ''% humidity. ''
      in if num_val hum > 80 then
           [''primary_advice'' \<mapsto>
              VStr (advice @ asc ''High humidity detected. Delay irrigation and avoid fungicide spray.''),
            ''action_items'' \<mapsto>
              VList [asc ''Skip irrigation today'', asc ''Monitor for fungal diseases''],
            ''confidence_score'' \<mapsto> VFloat (dbl (9 / 10))]
         else if num_val hum < 40 then
           [''primary_advice'' \<mapsto>
              VStr (advice @ asc ''Low humidity. Increase irrigation frequency.''),
            ''action_items'' \<mapsto>
              VList [asc ''Provide extra watering'', asc ''Mulch around plants''],
            ''confidence_score'' \<mapsto> VFloat (dbl (9 / 10))]
         else
           [''primary_advice'' \<mapsto>
              VStr (advice @ asc ''Good conditions for normal farming activities.''),
            ''action_items'' \<mapsto>
              VList [asc ''Continue regular irrigation'', asc ''Good time for field operations''],
            ''confidence_score'' \<mapsto> VFloat (dbl (9 / 10))])"

definition generate_market_response ::
  "(rat \<Rightarrow> str) \<Rightarrow> entities \<Rightarrow> context \<Rightarrow> real_time_data \<Rightarrow> response" where
  "generate_market_response fr entities ctx rtd =
     (let m = get_or (market rtd) \<lparr> price = None, change = None \<rparr>;
          pr = get_or (price m) (Num (IntN 0));
          chg = get_or (change m) (Str (asc ''N/A''));
          crop = get_or (entities ''crop'') (asc ''your crop'');
          advice = asc ''Current '' @ crop @ asc '' price: '' @ [8377] @ py_str fr pr
                   @ asc ''/quintal ('' @ py_str fr chg @ asc ''). ''
      in if 43 \<in> set (py_str fr chg) then
           [''primary_advice'' \<mapsto> VStr (advice @ asc ''Prices are rising. Good time to sell.''),
            ''action_items'' \<mapsto>
              VList [asc ''Sell immediately if ready'', asc ''Check nearby mandis for best rates''],
            ''confidence_score'' \<mapsto> VFloat (dbl (8 / 10))]
         else
           [''primary_advice'' \<mapsto>
              VStr (advice @ asc ''Prices declining. Consider waiting if possible.''),
            ''action_items'' \<mapsto>
              VList [asc ''Store safely if possible'', asc ''Monitor price trends for 1 week''],
            ''confidence_score'' \<mapsto> VFloat (dbl (8 / 10))])"

definition generate_fertilizer_response ::
  "(rat \<Rightarrow> str) \<Rightarrow> entities \<Rightarrow> context \<Rightarrow> real_time_data \<Rightarrow> response" where
  "generate_fertilizer_response fr entities ctx rtd =
     (let crop = get_or (entities ''crop'') (asc ''wheat'')
      in case map_of (crops knowledge_base) crop of
           Some crop_info \<Rightarrow>
             (let advice = asc ''For '' @ crop @ asc '': Apply '' @ fertilizer crop_info @ asc ''. '';
                  w = current_weather rtd;
                  temp = get_or (temperature w) (IntN 25)
              in if num_val temp > 30 then
                   [''primary_advice'' \<mapsto> VStr (advice @ asc ''High temperature - apply in evening.''),
                    ''action_items'' \<mapsto>
                      VList [asc ''Apply after 5 PM'', asc ''Water lightly after application''],
                    ''confidence_score'' \<mapsto> VFloat (dbl (85 / 100))]
                 else
                   [''primary_advice'' \<mapsto>
                      VStr (advice @ asc ''Good conditions for fertilizer application.''),
                    ''action_items'' \<mapsto>
                      VList [asc ''Apply in morning hours'', asc ''Incorporate into soil''],
                    ''confidence_score'' \<mapsto> VFloat (dbl (85 / 100))])
         | None \<Rightarrow>
             [''primary_advice'' \<mapsto>
                VStr (asc ''General fertilizer recommendation: NPK 120:60:60 kg/hectare''),
              ''action_items'' \<mapsto>
                VList [asc ''Soil test recommended'', asc ''Split application advised''],
              ''confidence_score'' \<mapsto> VFloat (dbl (85 / 100))])"

text \<open>
  The text of the source ends inside the dictionary that \<open>_generate_pest_response\<close>
  returns, within its entry \<open>warnings\<close>; \<open>_generate_scheme_response\<close> and
  \<open>_generate_general_response\<close> are called and not in the text. What is absent is a
  parameter: the entries of the pest dictionary from \<open>warnings\<close> on, and the two
  builders.
\<close>

type_synonym builder = "entities \<Rightarrow> context \<Rightarrow> real_time_data \<Rightarrow> response"

record absent =
  pest_rest :: builder
  generate_scheme_response :: builder
  generate_general_response :: builder

definition generate_pest_response ::
  "absent \<Rightarrow> entities \<Rightarrow> context \<Rightarrow> real_time_data \<Rightarrow> response" where
  "generate_pest_response ab entities ctx rtd =
     (let crop = get_or (entities ''crop'') (asc ''crop'');
          advice = asc ''For '' @ crop @ asc '' pest management: Regular monitoring essential. '';
          w = current_weather rtd;
          hum = get_or (humidity w) (IntN 60)
      in if num_val hum > 75 then
           [''primary_advice'' \<mapsto>
              VStr (advice @ asc ''High humidity increases fungal disease risk.''),
            ''action_items'' \<mapsto>
              VList [asc ''Spray preventive fungicide'', asc ''Improve air circulation'']]
           ++ pest_rest ab entities ctx rtd
         else
           [''primary_advice'' \<mapsto>
              VStr (advice @ asc ''Current conditions moderate for pest activity.''),
            ''action_items'' \<mapsto>
              VList [asc ''Weekly field monitoring'', asc ''Use pheromone traps'']]
           ++ pest_rest ab entities ctx rtd)"

subsection \<open>generate_response\<close>

definition base_response :: "context \<Rightarrow> response" where
  "base_response ctx =
     [''primary_advice'' \<mapsto> VStr [],
      ''detailed_explanation'' \<mapsto> VStr [],
      ''action_items'' \<mapsto> VList [],
      ''confidence_score'' \<mapsto> VFloat (dbl (85 / 100)),
      ''sources'' \<mapsto> VList (sources ctx),
      ''warnings'' \<mapsto> VList []]"

definition generate_response ::
  "(rat \<Rightarrow> str) \<Rightarrow> absent \<Rightarrow> str \<Rightarrow> entities \<Rightarrow> context \<Rightarrow> real_time_data \<Rightarrow> response" where
  \<comment> \<open>\<open>response.update(d)\<close> is \<open>response ++ d\<close>\<close>
  "generate_response fr ab intent entities ctx rtd =
     (let response = base_response ctx
      in if intent = asc ''weather'' \<or> intent = asc ''irrigation'' then
           response ++ generate_weather_response fr entities ctx rtd
         else if intent = asc ''market'' then
           response ++ generate_market_response fr entities ctx rtd
         else if intent = asc ''fertilizer'' then
           response ++ generate_fertilizer_response fr entities ctx rtd
         else if intent = asc ''pest'' then
           response ++ generate_pest_response ab entities ctx rtd
         else if intent = asc ''scheme'' then
           response ++ generate_scheme_response ab entities ctx rtd
         else
           response ++ generate_general_response ab entities ctx rtd)"

section \<open>Notions used by the properties\<close>

definition no_pattern_matches :: "unicode_db \<Rightarrow> str \<Rightarrow> bool" where
  \<comment> \<open>no pattern of the intent table occurs in the lower-cased text\<close>
  "no_pattern_matches u t =
     list_all
       (\<lambda>(intent, patterns). list_all (\<lambda>pattern. findall pattern (lower u t) = []) patterns)
       intent_patterns"

definition change_string :: "(rat \<Rightarrow> str) \<Rightarrow> real_time_data \<Rightarrow> str" where
  \<comment> \<open>the price-change string: \<open>str(change)\<close>, the change read with its default\<close>
  "change_string fr rtd =
     py_str fr (get_or (change (get_or (market rtd) \<lparr> price = None, change = None \<rparr>))
                  (Str (asc ''N/A'')))"

definition with_defaults :: "real_time_data \<Rightarrow> real_time_data" where
  \<comment> \<open>the snapshot with each absent field replaced by its fixed default\<close>
  "with_defaults rtd =
     (let w = current_weather rtd;
          m = get_or (market rtd) \<lparr> price = None, change = None \<rparr>
      in \<lparr> weather = Some \<lparr> current = Some
               \<lparr> temperature = Some (get_or (temperature w) (IntN 25)),
                 humidity = Some (get_or (humidity w) (IntN 60)) \<rparr> \<rparr>,
           market = Some
               \<lparr> price = Some (get_or (price m) (Num (IntN 0))),
                 change = Some (get_or (change m) (Str (asc ''N/A''))) \<rparr> \<rparr>)"

definition reads_defaults :: "builder \<Rightarrow> bool" where
  \<comment> \<open>a builder that reads the snapshot through the same defaults\<close>
  "reads_defaults b = (\<forall>entities ctx rtd. b entities ctx rtd = b entities ctx (with_defaults rtd))"

definition dispatched_builder :: "(rat \<Rightarrow> str) \<Rightarrow> absent \<Rightarrow> str \<Rightarrow> builder" where
  \<comment> \<open>the builder that generate_response calls for an intent\<close>
  "dispatched_builder fr ab intent =
     (if intent = asc ''weather'' \<or> intent = asc ''irrigation'' then generate_weather_response fr
      else if intent = asc ''market'' then generate_market_response fr
      else if intent = asc ''fertilizer'' then generate_fertilizer_response fr
      else if intent = asc ''pest'' then generate_pest_response ab
      else if intent = asc ''scheme'' then generate_scheme_response ab
      else generate_general_response ab)"

definition no_builders :: absent where
  \<comment> \<open>an instance of the absent parts, for the concrete instances of the theorems\<close>
  "no_builders =
     \<lparr> pest_rest = (\<lambda>entities ctx rtd. [''warnings'' \<mapsto> VList [asc ''Always read pesticide labels'']]),
       generate_scheme_response = (\<lambda>entities ctx rtd. Map.empty),
       generate_general_response = (\<lambda>entities ctx rtd. Map.empty) \<rparr>"

section \<open>Properties of the intent classifier\<close>

lemma dbl_zero: "dbl 0 = 0"
  by (simp add: dbl_def)

lemma dbl_3_10: "dbl (3 / 10) = 5404319552844595 / 18014398509481984"
  by code_simp

lemma dbl_1: "dbl 1 = 1"
  by code_simp

lemma add_matches_none: "findall pattern low = [] \<Longrightarrow> add_matches low 0 pattern = 0"
  by (simp add: add_matches_def dbl_zero)

lemma foldl_add_matches_none:
  "list_all (\<lambda>pattern. findall pattern low = []) patterns
   \<Longrightarrow> foldl (add_matches low) 0 patterns = 0"
  by (induction patterns) (simp_all add: add_matches_none)

lemma intent_scores_no_match:
  assumes "no_pattern_matches u t"
  shows "intent_scores u t = map (\<lambda>(intent, patterns). (intent, 0)) intent_patterns"
  using assms
  by (auto simp: no_pattern_matches_def intent_scores_def list_all_iff foldl_add_matches_none)

lemma intent_scores_none:
  assumes "no_pattern_matches u t" and "p \<in> set (intent_scores u t)"
  shows "snd p = 0"
  using assms(2) unfolding intent_scores_no_match [OF assms(1)] by auto

lemma py_max_zero: "b = 0 \<Longrightarrow> \<forall>x\<in>set xs. x = 0 \<Longrightarrow> py_max b xs = 0"
  by (induction xs arbitrary: b) auto

lemma py_max_fold: "py_max b xs = fold max xs b"
proof (induction xs arbitrary: b)
  case Nil
  show ?case by simp
next
  case (Cons x xs)
  have "(if b < x then x else b) = max x b" by (auto simp: max_def)
  with Cons show ?case by simp
qed

lemma py_max_Max: "py_max b xs = Max (set (b # xs))"
  by (simp only: py_max_fold Max.set_eq_fold)

lemma py_max_ge: "b \<le> py_max b xs"
  by (simp only: py_max_Max) simp

lemma py_max_key_snd: "snd (py_max_key p ps) = py_max (snd p) (map snd ps)"
  by (induction ps arbitrary: p) auto

text \<open>
  The key that \<open>max(d, key=d.get)\<close> returns is the first one, in the order of the
  dictionary, whose value is the maximum.
\<close>

lemma py_max_key_first:
  "find (\<lambda>r. snd r = py_max (snd p) (map snd ps)) (p # ps) = Some (py_max_key p ps)"
proof (induction ps arbitrary: p)
  case Nil
  show ?case by simp
next
  case (Cons x xs)
  let ?M = "py_max (snd p) (map snd (x # xs))"
  show ?case
  proof (cases "snd p < snd x")
    case True
    then have M: "?M = py_max (snd x) (map snd xs)" by simp
    have "snd x \<le> ?M" unfolding M by (rule py_max_ge)
    with True have "snd p \<noteq> ?M" by auto
    then have "find (\<lambda>r. snd r = ?M) (p # x # xs) = find (\<lambda>r. snd r = ?M) (x # xs)"
      by simp
    also have "\<dots> = Some (py_max_key x xs)" unfolding M by (rule Cons.IH)
    finally show ?thesis using True by simp
  next
    case False
    then have M: "?M = py_max (snd p) (map snd xs)" by simp
    show ?thesis
    proof (cases "snd p = ?M")
      case True
      have "py_max_key p xs = p"
        using Cons.IH [of p] True unfolding M by simp
      then show ?thesis using True False by simp
    next
      case neq: False
      have "snd p \<le> ?M" unfolding M by (rule py_max_ge)
      with neq False have "snd x \<noteq> ?M" by auto
      then have "find (\<lambda>r. snd r = ?M) (p # x # xs) = find (\<lambda>r. snd r = ?M) (p # xs)"
        using neq by simp
      also have "\<dots> = Some (py_max_key p xs)" unfolding M by (rule Cons.IH)
      finally show ?thesis using False by simp
    qed
  qed
qed

lemma intent_scores_keys:
  "map fst (intent_scores u t) =
     [asc ''weather'', asc ''irrigation'', asc ''market'', asc ''fertilizer'', asc ''pest'',
      asc ''scheme'', asc ''crop'']"
  by (simp add: intent_scores_def intent_patterns_def Let_def)

text \<open>The scores of the two texts that the instances below use.\<close>

lemma scores_kab_paani_de:
  "intent_scores ascii_db (asc ''kab paani de'') =
     [(asc ''weather'', dbl (3 / 10)), (asc ''irrigation'', dbl (3 / 10)),
      (asc ''market'', 0), (asc ''fertilizer'', 0), (asc ''pest'', 0), (asc ''scheme'', 0),
      (asc ''crop'', 0)]"
  by code_simp

lemma no_match_xyz_qwerty: "no_pattern_matches ascii_db (asc ''xyz qwerty'')"
  by code_simp

lemma scores_xyz_qwerty:
  "intent_scores ascii_db (asc ''xyz qwerty'') =
     [(asc ''weather'', 0), (asc ''irrigation'', 0), (asc ''market'', 0), (asc ''fertilizer'', 0),
      (asc ''pest'', 0), (asc ''scheme'', 0), (asc ''crop'', 0)]"
  unfolding intent_scores_no_match [OF no_match_xyz_qwerty] by (simp add: intent_patterns_def)

text \<open>
  C1. On the text "kab paani de" the pattern \<open>paani\<close> of the intent weather and the
  pattern \<open>kab paani de\<close> of the intent irrigation match once each, the two scores are
  the double 0.3, and the intent returned is weather, the earlier key, with confidence
  0.3; it is not irrigation.
\<close>

theorem extract_intent_kab_paani_de:
  "intent_scores ascii_db (asc ''kab paani de'') =
     [(asc ''weather'', dbl (3 / 10)), (asc ''irrigation'', dbl (3 / 10)),
      (asc ''market'', 0), (asc ''fertilizer'', 0), (asc ''pest'', 0), (asc ''scheme'', 0),
      (asc ''crop'', 0)]
   \<and> extract_intent ascii_db (asc ''kab paani de'') = (asc ''weather'', dbl (3 / 10))"
  unfolding extract_intent_def scores_kab_paani_de by (simp add: dbl_3_10 dbl_1)

text \<open>
  C2, as stated, fails where no pattern matches: on "xyz qwerty" the seven intents share
  the maximal score 0, the first of them is weather, and the intent returned is general.
\<close>

theorem tie_at_zero_counterexample:
  "map fst (intent_scores ascii_db (asc ''xyz qwerty'')) =
     [asc ''weather'', asc ''irrigation'', asc ''market'', asc ''fertilizer'', asc ''pest'',
      asc ''scheme'', asc ''crop'']
   \<and> map snd (intent_scores ascii_db (asc ''xyz qwerty'')) = [0, 0, 0, 0, 0, 0, 0]
   \<and> fst (extract_intent ascii_db (asc ''xyz qwerty'')) = asc ''general''
   \<and> fst (extract_intent ascii_db (asc ''xyz qwerty'')) \<noteq> asc ''weather''"
  unfolding extract_intent_def scores_xyz_qwerty by simp

text \<open>
  C2, amended. For every text whose maximal score is not 0, the keys of the scores are
  weather, irrigation, market, fertilizer, pest, scheme, crop in this order, the intent
  returned is the first key in this order whose score is the maximal score, and the
  confidence is the smaller of that score and 1.
\<close>

theorem extract_intent_first_maximal:
  assumes "Max (snd ` set (intent_scores u t)) \<noteq> 0"
  shows "map fst (intent_scores u t) =
           [asc ''weather'', asc ''irrigation'', asc ''market'', asc ''fertilizer'', asc ''pest'',
            asc ''scheme'', asc ''crop'']
         \<and> find (\<lambda>p. snd p = Max (snd ` set (intent_scores u t))) (intent_scores u t)
             = Some (fst (extract_intent u t), Max (snd ` set (intent_scores u t)))
         \<and> snd (extract_intent u t) = min (Max (snd ` set (intent_scores u t))) 1"
proof (cases "intent_scores u t")
  case Nil
  then show ?thesis using intent_scores_keys [of u t] by simp
next
  case (Cons p ps)
  let ?M = "Max (snd ` set (intent_scores u t))"
  have M: "py_max (snd p) (map snd ps) = ?M"
    unfolding Cons py_max_Max by simp
  have nz: "py_max (snd p) (map snd ps) \<noteq> 0" using assms M by simp
  obtain i s where best: "py_max_key p ps = (i, s)" by (cases "py_max_key p ps")
  have s: "s = ?M" using py_max_key_snd [of p ps] best M by simp
  have e: "extract_intent u t = (i, min s 1)"
    using nz best by (simp add: extract_intent_def Cons dbl_1)
  have "find (\<lambda>r. snd r = ?M) (p # ps) = Some (i, s)"
    using py_max_key_first [of p ps] best M by simp
  then show ?thesis using e s Cons intent_scores_keys [of u t] by simp
qed

theorem extract_intent_first_maximal_witness:
  "Max (snd ` set (intent_scores ascii_db (asc ''kab paani de''))) \<noteq> 0
   \<and> find (\<lambda>p. snd p = Max (snd ` set (intent_scores ascii_db (asc ''kab paani de''))))
         (intent_scores ascii_db (asc ''kab paani de''))
       = Some (asc ''weather'', dbl (3 / 10))
   \<and> fst (extract_intent ascii_db (asc ''kab paani de'')) = asc ''weather''"
proof -
  let ?t = "asc ''kab paani de''"
  have h: "Max (snd ` set (intent_scores ascii_db ?t)) \<noteq> 0"
    unfolding scores_kab_paani_de by (simp add: dbl_3_10)
  have f: "find (\<lambda>p. snd p = Max (snd ` set (intent_scores ascii_db ?t)))
             (intent_scores ascii_db ?t) = Some (asc ''weather'', dbl (3 / 10))"
    unfolding scores_kab_paani_de by (simp add: dbl_3_10)
  from extract_intent_first_maximal [OF h] f
  have "fst (extract_intent ascii_db ?t) = asc ''weather''" by simp
  with h f show ?thesis by blast
qed

text \<open>
  C3. For every text in which no pattern of the intent table matches, extract_intent
  returns the intent general with the confidence 0.5; "xyz qwerty" is such a text.
\<close>

theorem extract_intent_no_match:
  assumes "no_pattern_matches u t"
  shows "extract_intent u t = (asc ''general'', dbl (1 / 2))"
proof (cases "intent_scores u t")
  case Nil
  then show ?thesis by (simp add: extract_intent_def)
next
  case (Cons p ps)
  have z: "\<forall>q\<in>set (p # ps). snd q = 0"
    using intent_scores_none [OF assms] Cons by simp
  then have "py_max (snd p) (map snd ps) = 0"
    by (intro py_max_zero) auto
  with Cons show ?thesis by (simp add: extract_intent_def)
qed

theorem extract_intent_no_match_witness:
  "no_pattern_matches ascii_db (asc ''xyz qwerty'')
   \<and> extract_intent ascii_db (asc ''xyz qwerty'') = (asc ''general'', dbl (1 / 2))"
  using no_match_xyz_qwerty extract_intent_no_match [OF no_match_xyz_qwerty] by simp

section \<open>Properties of the language detector and of the response generator\<close>

text \<open>
  C4. detect_language returns hi when the text has more Devanagari-block characters than
  Latin letters; otherwise it returns en when the text has a Latin letter; it returns hi
  when the text has no character of either script; and its result is always hi or en.
\<close>

theorem detect_language_rule:
  "(length (filter is_latin t) < length (filter is_devanagari t) \<longrightarrow> detect_language t = asc ''hi'')
   \<and> (\<not> length (filter is_latin t) < length (filter is_devanagari t) \<and> 0 < length (filter is_latin t)
        \<longrightarrow> detect_language t = asc ''en'')
   \<and> (length (filter is_devanagari t) = 0 \<and> length (filter is_latin t) = 0
        \<longrightarrow> detect_language t = asc ''hi'')
   \<and> (detect_language t = asc ''hi'' \<or> detect_language t = asc ''en'')"
  by (simp add: detect_language_def hindi_chars_def english_chars_def)

theorem detect_language_rule_witness:
  "length (filter is_latin [2327, 2375, 32, 97]) < length (filter is_devanagari [2327, 2375, 32, 97])
   \<and> detect_language [2327, 2375, 32, 97] = asc ''hi''
   \<and> \<not> length (filter is_latin (asc ''paani'')) < length (filter is_devanagari (asc ''paani''))
   \<and> 0 < length (filter is_latin (asc ''paani''))
   \<and> detect_language (asc ''paani'') = asc ''en''
   \<and> length (filter is_devanagari (asc ''12 %'')) = 0 \<and> length (filter is_latin (asc ''12 %'')) = 0
   \<and> detect_language (asc ''12 %'') = asc ''hi''"
  using detect_language_rule [of "[2327, 2375, 32, 97]"] detect_language_rule [of "asc ''paani''"]
    detect_language_rule [of "asc ''12 %''"]
  by (simp add: is_latin_def is_devanagari_def)

text \<open>
  C5. For the intent weather or irrigation and a snapshot whose humidity is larger than
  80, generate_response returns the action items "Skip irrigation today" and "Monitor for
  fungal diseases", the confidence 0.9, and the advice that gives the conditions and then
  "High humidity detected. Delay irrigation and avoid fungicide spray."
\<close>

theorem generate_response_high_humidity:
  assumes "intent = asc ''weather'' \<or> intent = asc ''irrigation''"
    and "weather rtd = Some w" and "current w = Some c" and "humidity c = Some h"
    and "80 < num_val h"
  shows "generate_response fr ab intent entities ctx rtd ''action_items''
           = Some (VList [asc ''Skip irrigation today'', asc ''Monitor for fungal diseases''])
         \<and> generate_response fr ab intent entities ctx rtd ''confidence_score''
           = Some (VFloat (dbl (9 / 10)))
         \<and> generate_response fr ab intent entities ctx rtd ''primary_advice''
           = Some (VStr (asc ''Current conditions: '' @ str_num fr (get_or (temperature c) (IntN 25))
                         @ [176] @ asc ''C, '' @ str_num fr h @ asc ''% humidity. ''
                         @ asc ''High humidity detected. Delay irrigation and avoid fungicide spray.''))"
  using assms
  by (auto simp: generate_response_def generate_weather_response_def current_weather_def
      get_or_def Let_def)

theorem generate_response_high_humidity_witness:
  "(asc ''weather'' = asc ''weather'' \<or> asc ''weather'' = asc ''irrigation'')
   \<and> 80 < num_val (IntN 85)
   \<and> generate_response (\<lambda>x. []) no_builders (asc ''weather'') Map.empty
        \<lparr> sources = [], facts = [], recommendations = [] \<rparr>
        \<lparr> weather = Some \<lparr> current = Some \<lparr> temperature = None, humidity = Some (IntN 85) \<rparr> \<rparr>,
          market = None \<rparr> ''action_items''
      = Some (VList [asc ''Skip irrigation today'', asc ''Monitor for fungal diseases''])
   \<and> generate_response (\<lambda>x. []) no_builders (asc ''weather'') Map.empty
        \<lparr> sources = [], facts = [], recommendations = [] \<rparr>
        \<lparr> weather = Some \<lparr> current = Some \<lparr> temperature = None, humidity = Some (IntN 85) \<rparr> \<rparr>,
          market = None \<rparr> ''confidence_score''
      = Some (VFloat (dbl (9 / 10)))"
proof -
  let ?c = "\<lparr> temperature = None, humidity = Some (IntN 85) \<rparr>"
  let ?w = "\<lparr> current = Some ?c \<rparr>"
  let ?rtd = "\<lparr> weather = Some ?w, market = None \<rparr>"
  have i: "asc ''weather'' = asc ''weather'' \<or> asc ''weather'' = asc ''irrigation''" by simp
  have h: "80 < num_val (IntN 85)" by simp
  have "weather ?rtd = Some ?w" and "current ?w = Some ?c" and "humidity ?c = Some (IntN 85)"
    by simp_all
  from generate_response_high_humidity [OF i this h, of "\<lambda>x. []" no_builders Map.empty
      "\<lparr> sources = [], facts = [], recommendations = [] \<rparr>"] i h
  show ?thesis by blast
qed

text \<open>
  C6. For the intent market, any entities and any snapshot, the action items are those of
  a rising price exactly when the price-change string contains the character + (code
  point 43), and those of a declining price otherwise; the confidence is 0.8.
\<close>

theorem generate_response_market:
  "generate_response fr ab (asc ''market'') entities ctx rtd ''action_items''
     = Some (VList (if 43 \<in> set (change_string fr rtd)
                    then [asc ''Sell immediately if ready'', asc ''Check nearby mandis for best rates'']
                    else [asc ''Store safely if possible'', asc ''Monitor price trends for 1 week'']))
   \<and> generate_response fr ab (asc ''market'') entities ctx rtd ''confidence_score''
     = Some (VFloat (dbl (8 / 10)))"
  by (simp add: generate_response_def generate_market_response_def change_string_def Let_def)

theorem generate_response_market_witness:
  "43 \<in> set (change_string (\<lambda>x. [])
       \<lparr> weather = None, market = Some \<lparr> price = None, change = Some (Str (asc ''+5'')) \<rparr> \<rparr>)
   \<and> generate_response (\<lambda>x. []) no_builders (asc ''market'') [''crop'' \<mapsto> asc ''wheat'']
        \<lparr> sources = [], facts = [], recommendations = [] \<rparr>
        \<lparr> weather = None, market = Some \<lparr> price = None, change = Some (Str (asc ''+5'')) \<rparr> \<rparr>
        ''action_items''
      = Some (VList [asc ''Sell immediately if ready'', asc ''Check nearby mandis for best rates''])
   \<and> 43 \<notin> set (change_string (\<lambda>x. []) \<lparr> weather = None, market = None \<rparr>)
   \<and> generate_response (\<lambda>x. []) no_builders (asc ''market'') [''crop'' \<mapsto> asc ''wheat'']
        \<lparr> sources = [], facts = [], recommendations = [] \<rparr> \<lparr> weather = None, market = None \<rparr>
        ''action_items''
      = Some (VList [asc ''Store safely if possible'', asc ''Monitor price trends for 1 week''])"
proof -
  let ?up = "\<lparr> weather = None, market = Some \<lparr> price = None, change = Some (Str (asc ''+5'')) \<rparr> \<rparr>"
  let ?no = "\<lparr> weather = None, market = None \<rparr>"
  have a: "43 \<in> set (change_string (\<lambda>x. []) ?up)"
    by (simp add: change_string_def get_or_def)
  have b: "43 \<notin> set (change_string (\<lambda>x. []) ?no)"
    by (simp add: change_string_def get_or_def)
  from generate_response_market [of "\<lambda>x. []" no_builders "[''crop'' \<mapsto> asc ''wheat'']"
      "\<lparr> sources = [], facts = [], recommendations = [] \<rparr>" ?up]
    generate_response_market [of "\<lambda>x. []" no_builders "[''crop'' \<mapsto> asc ''wheat'']"
      "\<lparr> sources = [], facts = [], recommendations = [] \<rparr>" ?no] a b
  show ?thesis by simp
qed

lemma current_weather_with_defaults:
  "current_weather (with_defaults rtd) =
     \<lparr> temperature = Some (get_or (temperature (current_weather rtd)) (IntN 25)),
       humidity = Some (get_or (humidity (current_weather rtd)) (IntN 60)) \<rparr>"
  by (simp add: with_defaults_def current_weather_def get_or_def Let_def)

lemma market_with_defaults:
  "get_or (market (with_defaults rtd)) \<lparr> price = None, change = None \<rparr> =
     \<lparr> price = Some (get_or (price (get_or (market rtd) \<lparr> price = None, change = None \<rparr>))
                       (Num (IntN 0))),
       change = Some (get_or (change (get_or (market rtd) \<lparr> price = None, change = None \<rparr>))
                        (Str (asc ''N/A''))) \<rparr>"
  by (simp add: with_defaults_def get_or_def Let_def)

lemma weather_response_defaults:
  "generate_weather_response fr entities ctx (with_defaults rtd)
     = generate_weather_response fr entities ctx rtd"
  by (simp add: generate_weather_response_def current_weather_with_defaults get_or_def Let_def)

lemma market_response_defaults:
  "generate_market_response fr entities ctx (with_defaults rtd)
     = generate_market_response fr entities ctx rtd"
  unfolding generate_market_response_def market_with_defaults
  by (simp add: get_or_def Let_def)

lemma fertilizer_response_defaults:
  "generate_fertilizer_response fr entities ctx (with_defaults rtd)
     = generate_fertilizer_response fr entities ctx rtd"
  by (simp add: generate_fertilizer_response_def current_weather_with_defaults get_or_def Let_def
      split: option.split)

lemma pest_response_defaults:
  "reads_defaults (pest_rest ab) \<Longrightarrow>
   generate_pest_response ab entities ctx (with_defaults rtd)
     = generate_pest_response ab entities ctx rtd"
  unfolding reads_defaults_def generate_pest_response_def current_weather_with_defaults
  by (simp add: get_or_def Let_def)

lemma with_defaults_empty:
  "with_defaults \<lparr> weather = None, market = None \<rparr> =
     \<lparr> weather = Some \<lparr> current = Some \<lparr> temperature = Some (IntN 25),
                                           humidity = Some (IntN 60) \<rparr> \<rparr>,
       market = Some \<lparr> price = Some (Num (IntN 0)), change = Some (Str (asc ''N/A'')) \<rparr> \<rparr>"
  by (simp add: with_defaults_def current_weather_def get_or_def Let_def)

text \<open>
  C7. generate_response is a total function of the snapshot: every field is read with
  \<open>get\<close> and a default. Its result on a snapshot is its result on the snapshot in which
  each absent field holds its default, temperature 25, humidity 60, price 0 and change
  "N/A". This holds for the intents whose builders are in the text, and for the others
  as soon as the absent builders read the snapshot through the same defaults.
\<close>

theorem generate_response_defaults:
  assumes "intent \<in> {asc ''weather'', asc ''irrigation'', asc ''market'', asc ''fertilizer''}
           \<or> (reads_defaults (pest_rest ab) \<and> reads_defaults (generate_scheme_response ab)
               \<and> reads_defaults (generate_general_response ab))"
  shows "generate_response fr ab intent entities ctx rtd
           = generate_response fr ab intent entities ctx (with_defaults rtd)
         \<and> with_defaults \<lparr> weather = None, market = None \<rparr> =
             \<lparr> weather = Some \<lparr> current = Some \<lparr> temperature = Some (IntN 25),
                                                   humidity = Some (IntN 60) \<rparr> \<rparr>,
               market = Some \<lparr> price = Some (Num (IntN 0)),
                                change = Some (Str (asc ''N/A'')) \<rparr> \<rparr>"
proof -
  have vis: "generate_response fr ab intent entities ctx rtd
               = generate_response fr ab intent entities ctx (with_defaults rtd)"
    if "intent \<in> {asc ''weather'', asc ''irrigation'', asc ''market'', asc ''fertilizer''}"
    using that
    by (auto simp: generate_response_def weather_response_defaults market_response_defaults
        fertilizer_response_defaults)
  have par: "generate_response fr ab intent entities ctx rtd
               = generate_response fr ab intent entities ctx (with_defaults rtd)"
    if p: "reads_defaults (pest_rest ab)" and s: "reads_defaults (generate_scheme_response ab)"
      and g: "reads_defaults (generate_general_response ab)"
  proof -
    have s': "generate_scheme_response ab entities ctx (with_defaults rtd)
                = generate_scheme_response ab entities ctx rtd"
      using s by (simp add: reads_defaults_def)
    have g': "generate_general_response ab entities ctx (with_defaults rtd)
                = generate_general_response ab entities ctx rtd"
      using g by (simp add: reads_defaults_def)
    show ?thesis
      unfolding generate_response_def weather_response_defaults market_response_defaults
        fertilizer_response_defaults pest_response_defaults [OF p] s' g'
      by (rule refl)
  qed
  from assms vis par with_defaults_empty show ?thesis by blast
qed

theorem generate_response_defaults_witness:
  "reads_defaults (pest_rest no_builders) \<and> reads_defaults (generate_scheme_response no_builders)
   \<and> reads_defaults (generate_general_response no_builders)
   \<and> generate_response (\<lambda>x. []) no_builders (asc ''pest'') Map.empty
        \<lparr> sources = [], facts = [], recommendations = [] \<rparr> \<lparr> weather = None, market = None \<rparr>
      = generate_response (\<lambda>x. []) no_builders (asc ''pest'') Map.empty
        \<lparr> sources = [], facts = [], recommendations = [] \<rparr>
        \<lparr> weather = Some \<lparr> current = Some \<lparr> temperature = Some (IntN 25),
                                              humidity = Some (IntN 60) \<rparr> \<rparr>,
          market = Some \<lparr> price = Some (Num (IntN 0)), change = Some (Str (asc ''N/A'')) \<rparr> \<rparr>"
proof -
  have h: "reads_defaults (pest_rest no_builders) \<and> reads_defaults (generate_scheme_response no_builders)
           \<and> reads_defaults (generate_general_response no_builders)"
    by (simp add: reads_defaults_def no_builders_def)
  from generate_response_defaults [OF disjI2, OF h, of "\<lambda>x. []" "asc ''pest''" Map.empty
      "\<lparr> sources = [], facts = [], recommendations = [] \<rparr>" "\<lparr> weather = None, market = None \<rparr>"]
  have "generate_response (\<lambda>x. []) no_builders (asc ''pest'') Map.empty
        \<lparr> sources = [], facts = [], recommendations = [] \<rparr> \<lparr> weather = None, market = None \<rparr>
      = generate_response (\<lambda>x. []) no_builders (asc ''pest'') Map.empty
        \<lparr> sources = [], facts = [], recommendations = [] \<rparr>
        \<lparr> weather = Some \<lparr> current = Some \<lparr> temperature = Some (IntN 25),
                                              humidity = Some (IntN 60) \<rparr> \<rparr>,
          market = Some \<lparr> price = Some (Num (IntN 0)), change = Some (Str (asc ''N/A'')) \<rparr> \<rparr>"
    by metis
  with h show ?thesis by blast
qed

lemma generate_response_dispatch:
  "generate_response fr ab intent entities ctx rtd
     = base_response ctx ++ dispatched_builder fr ab intent entities ctx rtd"
  by (simp add: generate_response_def dispatched_builder_def Let_def)

lemma dom_weather_response:
  "dom (generate_weather_response fr entities ctx rtd)
     = {''primary_advice'', ''action_items'', ''confidence_score''}"
  by (auto simp: generate_weather_response_def Let_def split: if_splits)

lemma dom_market_response:
  "dom (generate_market_response fr entities ctx rtd)
     = {''primary_advice'', ''action_items'', ''confidence_score''}"
  by (auto simp: generate_market_response_def Let_def split: if_splits)

lemma dom_fertilizer_response:
  "dom (generate_fertilizer_response fr entities ctx rtd)
     = {''primary_advice'', ''action_items'', ''confidence_score''}"
  by (auto simp: generate_fertilizer_response_def Let_def split: if_splits option.splits)

lemma dom_visible:
  assumes "intent \<in> {asc ''weather'', asc ''irrigation'', asc ''market'', asc ''fertilizer''}"
  shows "dom (dispatched_builder fr ab intent entities ctx rtd)
           = {''primary_advice'', ''action_items'', ''confidence_score''}"
  using assms
  by (auto simp: dispatched_builder_def dom_weather_response dom_market_response
      dom_fertilizer_response)

text \<open>
  C9. The response is the base response updated with the dictionary of the dispatched
  builder; a key that the builder does not produce keeps its base value, which is the
  empty string for detailed_explanation, the sources of the context for sources, the
  empty list for warnings and 0.85 for confidence_score. The builders for weather,
  irrigation, market and fertilizer produce none of detailed_explanation, sources and
  warnings.
\<close>

theorem generate_response_frame:
  "generate_response fr ab intent entities ctx rtd
     = base_response ctx ++ dispatched_builder fr ab intent entities ctx rtd
   \<and> (k \<notin> dom (dispatched_builder fr ab intent entities ctx rtd)
        \<longrightarrow> generate_response fr ab intent entities ctx rtd k = base_response ctx k)
   \<and> base_response ctx ''detailed_explanation'' = Some (VStr [])
   \<and> base_response ctx ''sources'' = Some (VList (sources ctx))
   \<and> base_response ctx ''warnings'' = Some (VList [])
   \<and> base_response ctx ''confidence_score'' = Some (VFloat (dbl (85 / 100)))
   \<and> (intent \<in> {asc ''weather'', asc ''irrigation'', asc ''market'', asc ''fertilizer''}
        \<longrightarrow> generate_response fr ab intent entities ctx rtd ''detailed_explanation'' = Some (VStr [])
          \<and> generate_response fr ab intent entities ctx rtd ''sources'' = Some (VList (sources ctx))
          \<and> generate_response fr ab intent entities ctx rtd ''warnings'' = Some (VList []))"
proof -
  have frame: "generate_response fr ab intent entities ctx rtd k = base_response ctx k"
    if "k \<notin> dom (dispatched_builder fr ab intent entities ctx rtd)" for k
    using that by (simp add: generate_response_dispatch map_add_dom_app_simps)
  have base: "base_response ctx ''detailed_explanation'' = Some (VStr [])"
    "base_response ctx ''sources'' = Some (VList (sources ctx))"
    "base_response ctx ''warnings'' = Some (VList [])"
    "base_response ctx ''confidence_score'' = Some (VFloat (dbl (85 / 100)))"
    by (simp_all add: base_response_def)
  have vis: "generate_response fr ab intent entities ctx rtd ''detailed_explanation'' = Some (VStr [])
          \<and> generate_response fr ab intent entities ctx rtd ''sources'' = Some (VList (sources ctx))
          \<and> generate_response fr ab intent entities ctx rtd ''warnings'' = Some (VList [])"
    if v: "intent \<in> {asc ''weather'', asc ''irrigation'', asc ''market'', asc ''fertilizer''}"
  proof -
    have "''detailed_explanation'' \<notin> dom (dispatched_builder fr ab intent entities ctx rtd)"
      "''sources'' \<notin> dom (dispatched_builder fr ab intent entities ctx rtd)"
      "''warnings'' \<notin> dom (dispatched_builder fr ab intent entities ctx rtd)"
      unfolding dom_visible [OF v] by simp_all
    then show ?thesis using frame base by simp
  qed
  from frame [of k] base vis generate_response_dispatch [of fr ab intent entities ctx rtd]
  show ?thesis by blast
qed

theorem generate_response_frame_witness:
  "asc ''market'' \<in> {asc ''weather'', asc ''irrigation'', asc ''market'', asc ''fertilizer''}
   \<and> ''warnings'' \<notin> dom (dispatched_builder (\<lambda>x. []) no_builders (asc ''market'') Map.empty
          \<lparr> sources = [asc ''Market Intelligence''], facts = [], recommendations = [] \<rparr>
          \<lparr> weather = None, market = None \<rparr>)
   \<and> generate_response (\<lambda>x. []) no_builders (asc ''market'') Map.empty
        \<lparr> sources = [asc ''Market Intelligence''], facts = [], recommendations = [] \<rparr>
        \<lparr> weather = None, market = None \<rparr> ''sources'' = Some (VList [asc ''Market Intelligence''])
   \<and> generate_response (\<lambda>x. []) no_builders (asc ''market'') Map.empty
        \<lparr> sources = [asc ''Market Intelligence''], facts = [], recommendations = [] \<rparr>
        \<lparr> weather = None, market = None \<rparr> ''warnings'' = Some (VList [])"
proof -
  let ?ctx = "\<lparr> sources = [asc ''Market Intelligence''], facts = [], recommendations = [] \<rparr>"
  let ?rtd = "\<lparr> weather = None, market = None \<rparr>"
  have m: "asc ''market'' \<in> {asc ''weather'', asc ''irrigation'', asc ''market'', asc ''fertilizer''}"
    by simp
  have d: "''warnings'' \<notin> dom (dispatched_builder (\<lambda>x. []) no_builders (asc ''market'') Map.empty
             ?ctx ?rtd)"
    unfolding dom_visible [OF m] by simp
  from generate_response_frame [of "\<lambda>x. []" no_builders "asc ''market''" Map.empty ?ctx ?rtd
      "''warnings''"] m d
  have "generate_response (\<lambda>x. []) no_builders (asc ''market'') Map.empty ?ctx ?rtd ''sources''
          = Some (VList (sources ?ctx))
        \<and> generate_response (\<lambda>x. []) no_builders (asc ''market'') Map.empty ?ctx ?rtd ''warnings''
          = Some (VList [])"
    by blast
  then show ?thesis using m d by simp
qed

lemma extract_entities_crop:
  "extract_entities u t ''crop'' = first_hit entity_crops (lower u t)"
  by (simp add: extract_entities_def Let_def split: option.split prod.split)

lemma extract_entities_quantity:
  "extract_entities u t ''quantity'' = map_option fst (search_quantity u (lower u t))"
  by (simp add: extract_entities_def Let_def split: option.split prod.split)

lemma extract_entities_unit:
  "extract_entities u t ''unit'' = map_option snd (search_quantity u (lower u t))"
  by (simp add: extract_entities_def Let_def split: option.split prod.split)

lemma first_hit_in_table: "first_hit table s = Some v \<Longrightarrow> v \<in> set (map fst table)"
  by (induction table s rule: first_hit.induct) (auto split: if_splits)

lemma mujhe_crop:
  "first_hit entity_crops (lower ascii_db (asc ''mujhe 5 kg aloo chahiye'')) = Some (asc ''potato'')"
  by code_simp

lemma mujhe_location:
  "first_hit entity_locations (lower ascii_db (asc ''mujhe 5 kg aloo chahiye'')) = None"
  by code_simp

lemma mujhe_quantity:
  "search_quantity ascii_db (lower ascii_db (asc ''mujhe 5 kg aloo chahiye''))
     = Some (asc ''5'', asc ''kg'')"
  by code_simp

text \<open>
  C8. extract_entities returns the dictionary with crop potato, quantity 5 and unit kg on
  "mujhe 5 kg aloo chahiye"; and for every text the keys quantity and unit are both
  present or both absent.
\<close>

theorem extract_entities_quantity_unit:
  "extract_entities ascii_db (asc ''mujhe 5 kg aloo chahiye'')
     = [''crop'' \<mapsto> asc ''potato'', ''quantity'' \<mapsto> asc ''5'', ''unit'' \<mapsto> asc ''kg'']
   \<and> (''quantity'' \<in> dom (extract_entities u t)) = (''unit'' \<in> dom (extract_entities u t))"
proof -
  have "extract_entities ascii_db (asc ''mujhe 5 kg aloo chahiye'')
     = [''crop'' \<mapsto> asc ''potato'', ''quantity'' \<mapsto> asc ''5'', ''unit'' \<mapsto> asc ''kg'']"
    unfolding extract_entities_def Let_def mujhe_crop mujhe_location mujhe_quantity by simp
  moreover have "(''quantity'' \<in> dom (extract_entities u t)) = (''unit'' \<in> dom (extract_entities u t))"
    by (cases "search_quantity u (lower u t)")
      (auto simp: dom_def extract_entities_quantity extract_entities_unit)
  ultimately show ?thesis by (rule conjI)
qed

section \<open>The crops that the knowledge base does not know\<close>

lemma kb_crops: "map fst (crops knowledge_base) = [asc ''wheat'', asc ''rice'']"
  by (simp add: knowledge_base_def)

lemma entity_crops_keys:
  "map fst entity_crops =
     [asc ''wheat'', asc ''rice'', asc ''cotton'', asc ''sugarcane'', asc ''potato'',
      asc ''tomato'', asc ''onion'']"
  by (simp add: entity_crops_def)

lemma extracted_crop_known:
  assumes "extract_entities u t ''crop'' = Some crop"
  shows "crop \<in> set [asc ''wheat'', asc ''rice'', asc ''cotton'', asc ''sugarcane'', asc ''potato'',
                     asc ''tomato'', asc ''onion'']"
  using first_hit_in_table [of entity_crops "lower u t" crop] assms
  unfolding extract_entities_crop entity_crops_keys by simp

lemma seven_crops_extracted:
  "map (\<lambda>t. first_hit entity_crops (lower ascii_db t))
     [asc ''wheat'', asc ''rice'', asc ''cotton'', asc ''sugarcane'', asc ''potato'',
      asc ''tomato'', asc ''onion'']
   = map Some [asc ''wheat'', asc ''rice'', asc ''cotton'', asc ''sugarcane'', asc ''potato'',
               asc ''tomato'', asc ''onion'']"
  by code_simp

lemma unknown_crop:
  assumes "crop \<in> {asc ''cotton'', asc ''sugarcane'', asc ''potato'', asc ''tomato'', asc ''onion''}"
  shows "map_of (crops knowledge_base) crop = None"
  using assms by (auto simp: knowledge_base_def)

lemma retrieve_context_unknown_crop:
  assumes "map_of (crops knowledge_base) crop = None" and "entities ''crop'' = Some crop"
  shows "retrieve_context intent entities query =
           \<lparr> sources = (if intent = asc ''irrigation'' then [asc ''Irrigation Best Practices'']
                        else if intent = asc ''market'' then [asc ''Market Intelligence''] else []),
             facts = (if intent = asc ''market'' then selling_tips (market_insights knowledge_base)
                      else []),
             recommendations =
               (if intent = asc ''irrigation''
                then map snd (irrigation (weather_guidelines knowledge_base)) else []) \<rparr>"
  using assms by (simp add: retrieve_context_def Let_def)

lemma retrieve_context_no_crop:
  assumes "entities ''crop'' = None"
  shows "retrieve_context intent entities query =
           \<lparr> sources = (if intent = asc ''irrigation'' then [asc ''Irrigation Best Practices'']
                        else if intent = asc ''market'' then [asc ''Market Intelligence''] else []),
             facts = (if intent = asc ''market'' then selling_tips (market_insights knowledge_base)
                      else []),
             recommendations =
               (if intent = asc ''irrigation''
                then map snd (irrigation (weather_guidelines knowledge_base)) else []) \<rparr>"
  using assms by (simp add: retrieve_context_def Let_def)

lemma fertilizer_unknown_crop:
  assumes "map_of (crops knowledge_base) crop = None" and "entities ''crop'' = Some crop"
  shows "generate_fertilizer_response fr entities ctx rtd =
           [''primary_advice'' \<mapsto>
              VStr (asc ''General fertilizer recommendation: NPK 120:60:60 kg/hectare''),
            ''action_items'' \<mapsto>
              VList [asc ''Soil test recommended'', asc ''Split application advised''],
            ''confidence_score'' \<mapsto> VFloat (dbl (85 / 100))]"
  using assms by (simp add: generate_fertilizer_response_def get_or_def Let_def)

text \<open>
  C10. The crop table of the knowledge base has the keys wheat and rice only; the crop
  that extract_entities returns is one of seven, each of which it does return; and for
  a crop among cotton, sugarcane, potato, tomato and onion, retrieve_context adds no crop
  fact and no crop source (its context is that of the entities without a crop), and
  _generate_fertilizer_response returns the generic NPK 120:60:60 advice with the action
  items "Soil test recommended" and "Split application advised".
\<close>

theorem unknown_crops_generic:
  "map fst (crops knowledge_base) = [asc ''wheat'', asc ''rice'']
   \<and> (extract_entities u t ''crop'' = Some c \<longrightarrow>
        c \<in> set [asc ''wheat'', asc ''rice'', asc ''cotton'', asc ''sugarcane'', asc ''potato'',
                  asc ''tomato'', asc ''onion''])
   \<and> map (\<lambda>t. extract_entities ascii_db t ''crop'')
        [asc ''wheat'', asc ''rice'', asc ''cotton'', asc ''sugarcane'', asc ''potato'',
         asc ''tomato'', asc ''onion'']
      = map Some [asc ''wheat'', asc ''rice'', asc ''cotton'', asc ''sugarcane'', asc ''potato'',
                  asc ''tomato'', asc ''onion'']
   \<and> (crop \<in> {asc ''cotton'', asc ''sugarcane'', asc ''potato'', asc ''tomato'', asc ''onion''}
        \<and> entities ''crop'' = Some crop \<longrightarrow>
          retrieve_context intent entities query
            = retrieve_context intent (entities(''crop'' := None)) query
        \<and> facts (retrieve_context intent entities query)
            = (if intent = asc ''market'' then selling_tips (market_insights knowledge_base) else [])
        \<and> sources (retrieve_context intent entities query)
            = (if intent = asc ''irrigation'' then [asc ''Irrigation Best Practices'']
               else if intent = asc ''market'' then [asc ''Market Intelligence''] else [])
        \<and> generate_fertilizer_response fr entities ctx rtd =
            [''primary_advice'' \<mapsto>
               VStr (asc ''General fertilizer recommendation: NPK 120:60:60 kg/hectare''),
             ''action_items'' \<mapsto>
               VList [asc ''Soil test recommended'', asc ''Split application advised''],
             ''confidence_score'' \<mapsto> VFloat (dbl (85 / 100))])"
proof -
  have seven: "map (\<lambda>t. extract_entities ascii_db t ''crop'')
        [asc ''wheat'', asc ''rice'', asc ''cotton'', asc ''sugarcane'', asc ''potato'',
         asc ''tomato'', asc ''onion'']
      = map Some [asc ''wheat'', asc ''rice'', asc ''cotton'', asc ''sugarcane'', asc ''potato'',
                  asc ''tomato'', asc ''onion'']"
    unfolding extract_entities_crop by (rule seven_crops_extracted)
  have generic: "retrieve_context intent entities query
            = retrieve_context intent (entities(''crop'' := None)) query
        \<and> facts (retrieve_context intent entities query)
            = (if intent = asc ''market'' then selling_tips (market_insights knowledge_base) else [])
        \<and> sources (retrieve_context intent entities query)
            = (if intent = asc ''irrigation'' then [asc ''Irrigation Best Practices'']
               else if intent = asc ''market'' then [asc ''Market Intelligence''] else [])
        \<and> generate_fertilizer_response fr entities ctx rtd =
            [''primary_advice'' \<mapsto>
               VStr (asc ''General fertilizer recommendation: NPK 120:60:60 kg/hectare''),
             ''action_items'' \<mapsto>
               VList [asc ''Soil test recommended'', asc ''Split application advised''],
             ''confidence_score'' \<mapsto> VFloat (dbl (85 / 100))]"
    if five: "crop \<in> {asc ''cotton'', asc ''sugarcane'', asc ''potato'', asc ''tomato'', asc ''onion''}"
      and e: "entities ''crop'' = Some crop"
  proof -
    note u = unknown_crop [OF five]
    have n: "(entities(''crop'' := None)) ''crop'' = None" by simp
    show ?thesis
      unfolding retrieve_context_unknown_crop [where entities = entities, OF u e]
        retrieve_context_no_crop [where entities = "entities(''crop'' := None)", OF n]
        fertilizer_unknown_crop [where entities = entities, OF u e]
      by simp
  qed
  from kb_crops extracted_crop_known [of u t c] seven generic show ?thesis by blast
qed

theorem unknown_crops_generic_witness:
  "extract_entities ascii_db (asc ''kapas ke liye khad'') ''crop'' = Some (asc ''cotton'')
   \<and> asc ''cotton'' \<in> {asc ''cotton'', asc ''sugarcane'', asc ''potato'', asc ''tomato'', asc ''onion''}
   \<and> facts (retrieve_context (asc ''fertilizer'')
               (extract_entities ascii_db (asc ''kapas ke liye khad'')) (asc ''kapas ke liye khad'')) = []
   \<and> sources (retrieve_context (asc ''fertilizer'')
               (extract_entities ascii_db (asc ''kapas ke liye khad'')) (asc ''kapas ke liye khad'')) = []
   \<and> generate_fertilizer_response (\<lambda>x. [])
        (extract_entities ascii_db (asc ''kapas ke liye khad''))
        \<lparr> sources = [], facts = [], recommendations = [] \<rparr> \<lparr> weather = None, market = None \<rparr>
        ''action_items''
      = Some (VList [asc ''Soil test recommended'', asc ''Split application advised''])"
proof -
  let ?t = "asc ''kapas ke liye khad''"
  have c: "extract_entities ascii_db ?t ''crop'' = Some (asc ''cotton'')"
    unfolding extract_entities_crop by code_simp
  have five: "asc ''cotton'' \<in> {asc ''cotton'', asc ''sugarcane'', asc ''potato'', asc ''tomato'',
                                  asc ''onion''}"
    by simp
  from unknown_crops_generic [of ascii_db ?t "asc ''cotton''" "asc ''cotton''"
      "extract_entities ascii_db ?t" "asc ''fertilizer''" ?t "\<lambda>x. []"
      "\<lparr> sources = [], facts = [], recommendations = [] \<rparr>" "\<lparr> weather = None, market = None \<rparr>"]
    c five
  have "facts (retrieve_context (asc ''fertilizer'') (extract_entities ascii_db ?t) ?t)
          = (if asc ''fertilizer'' = asc ''market''
             then selling_tips (market_insights knowledge_base) else [])
        \<and> sources (retrieve_context (asc ''fertilizer'') (extract_entities ascii_db ?t) ?t)
          = (if asc ''fertilizer'' = asc ''irrigation'' then [asc ''Irrigation Best Practices'']
             else if asc ''fertilizer'' = asc ''market'' then [asc ''Market Intelligence''] else [])
        \<and> generate_fertilizer_response (\<lambda>x. []) (extract_entities ascii_db ?t)
            \<lparr> sources = [], facts = [], recommendations = [] \<rparr> \<lparr> weather = None, market = None \<rparr>
          = [''primary_advice'' \<mapsto>
               VStr (asc ''General fertilizer recommendation: NPK 120:60:60 kg/hectare''),
             ''action_items'' \<mapsto>
               VList [asc ''Soil test recommended'', asc ''Split application advised''],
             ''confidence_score'' \<mapsto> VFloat (dbl (85 / 100))]"
    by blast
  then have "facts (retrieve_context (asc ''fertilizer'') (extract_entities ascii_db ?t) ?t) = []
        \<and> sources (retrieve_context (asc ''fertilizer'') (extract_entities ascii_db ?t) ?t) = []
        \<and> generate_fertilizer_response (\<lambda>x. []) (extract_entities ascii_db ?t)
            \<lparr> sources = [], facts = [], recommendations = [] \<rparr> \<lparr> weather = None, market = None \<rparr>
            ''action_items''
          = Some (VList [asc ''Soil test recommended'', asc ''Split application advised''])"
    by simp
  with c five show ?thesis by blast
qed

end
